theory Spec2Isabelle
  imports Complex_Main
begin

section \<open>Values and errors\<close>

text \<open>
  The exceptions that the code of \<^verbatim>\<open>octree_chunk.py\<close> can raise: a call with the wrong
  number of positional arguments (\<open>TypeError\<close>), a failed \<^verbatim>\<open>assert\<close> statement
  (\<open>AssertionError\<close>) and an index past the end of an array (\<open>IndexError\<close>).
\<close>

datatype error = TypeError | AssertionError | IndexError

text \<open>
  The Python values passed to the constructor of \<open>OctreeLocation\<close>: integers, and arrays
  such as \<^verbatim>\<open>np.zeros(0)\<close> (the array of length 0). Array elements are floats in the
  program; the model takes them as reals, and no property below computes with them: they are
  only stored and compared.
\<close>

datatype pyval = PyInt int | PyNdarray "real list"

text \<open>
  An \<open>ArrayLike\<close> value is a reference to an array object. The number is the identity of the
  object, so that equality of two values is Python's \<^verbatim>\<open>is\<close>. \<open>Ndarray\<close> is a reference to
  an instance of \<^verbatim>\<open>np.ndarray\<close> (bytes in memory); \<open>Lazy\<close> is a reference to any other
  array-like object (a Dask array or similar deferred array).
\<close>

datatype ArrayLike = Ndarray nat | Lazy nat

text \<open>\<^verbatim>\<open>isinstance(data, np.ndarray)\<close>\<close>

fun is_ndarray :: "ArrayLike \<Rightarrow> bool" where
  "is_ndarray (Ndarray r) = True"
| "is_ndarray (Lazy r) = False"


section \<open>OctreeChunkGeom and OctreeLocation\<close>

record OctreeChunkGeom =
  pos :: "real list"
  scale :: "real list"

text \<open>
  \<open>OctreeLocation\<close> is a \<^verbatim>\<open>NamedTuple\<close> of four fields. The annotations (\<^verbatim>\<open>int\<close>) are
  not checked when the program runs, so a field holds whatever value it was given.
\<close>

record OctreeLocation =
  slice_id :: pyval
  level_index :: pyval
  row :: pyval
  col :: pyval

text \<open>
  The constructor that \<^verbatim>\<open>NamedTuple\<close> generates binds exactly four positional arguments;
  a call with any other number of them raises \<open>TypeError\<close>.
\<close>

fun OctreeLocation_new :: "pyval list \<Rightarrow> error + OctreeLocation" where
  "OctreeLocation_new [s, l, r, c] =
     Inr \<lparr>slice_id = s, level_index = l, row = r, col = c\<rparr>"
| "OctreeLocation_new args = Inl TypeError"

text \<open>\<^verbatim>\<open>return cls(0, 0, 0, 0, np.zeros(0), np.zeros(0))\<close>\<close>

definition create_null :: "error + OctreeLocation" where
  "create_null =
     OctreeLocation_new [PyInt 0, PyInt 0, PyInt 0, PyInt 0, PyNdarray [], PyNdarray []]"


section \<open>OctreeChunk\<close>

text \<open>
  The attributes \<^verbatim>\<open>_data\<close> and \<^verbatim>\<open>_orig_data\<close> are the fields \<open>data\<close> and
  \<open>orig_data\<close>; the property \<^verbatim>\<open>data\<close> returns \<^verbatim>\<open>self._data\<close>, which is the selector
  \<open>data\<close>.
\<close>

record OctreeChunk =
  data :: ArrayLike
  orig_data :: ArrayLike
  location :: OctreeLocation
  geom :: OctreeChunkGeom
  loading :: bool

definition OctreeChunk_init ::
  "ArrayLike \<Rightarrow> OctreeLocation \<Rightarrow> OctreeChunkGeom \<Rightarrow> OctreeChunk" where
  "OctreeChunk_init d loc g =
     \<lparr>data = d, orig_data = d, location = loc, geom = g, loading = False\<rparr>"

text \<open>
  The setter of \<^verbatim>\<open>data\<close>. It returns the exception raised, if any, and the chunk as it
  is when the call ends. The \<^verbatim>\<open>assert\<close> statement is taken as executed (the interpreter's
  default mode); it comes before both assignments.
\<close>

definition data_setter :: "OctreeChunk \<Rightarrow> ArrayLike \<Rightarrow> error option \<times> OctreeChunk" where
  "data_setter c d =
     (if \<not> is_ndarray d then (Some AssertionError, c)
      else (None, c\<lparr>data := d, loading := False\<rparr>))"

text \<open>
  The same setter, statement by statement: the list of the states of the chunk during one
  call, starting with the state at entry. A failed \<^verbatim>\<open>assert\<close> ends the call at once;
  otherwise \<^verbatim>\<open>self._data = data\<close> and \<^verbatim>\<open>self.loading = False\<close> are two stores, one
  after the other, with no statement between them.
\<close>

definition data_setter_steps :: "OctreeChunk \<Rightarrow> ArrayLike \<Rightarrow> OctreeChunk list" where
  "data_setter_steps c d =
     (if \<not> is_ndarray d then [c]
      else [c, c\<lparr>data := d\<rparr>, c\<lparr>data := d, loading := False\<rparr>])"

text \<open>
  The property \<^verbatim>\<open>key\<close>: \<^verbatim>\<open>(self.geom.pos[0], self.geom.pos[1], self.location.level_index)\<close>.
  Reading index 0 or 1 of an array with fewer elements raises \<open>IndexError\<close>.
\<close>

definition key :: "OctreeChunk \<Rightarrow> error + (real \<times> real \<times> pyval)" where
  "key c =
     (case pos (geom c) of
        x # y # rest \<Rightarrow> Inr (x, y, level_index (location c))
      | _ \<Rightarrow> Inl IndexError)"

definition in_memory :: "OctreeChunk \<Rightarrow> bool" where
  "in_memory c = is_ndarray (data c)"

definition needs_load :: "OctreeChunk \<Rightarrow> bool" where
  "needs_load c = (\<not> in_memory c \<and> \<not> loading c)"

definition clear :: "OctreeChunk \<Rightarrow> OctreeChunk" where
  "clear c = c\<lparr>data := orig_data c, loading := False\<rparr>"


section \<open>Sequences of operations on a chunk\<close>

text \<open>
  What the callers of a chunk do to it: assign the public attribute \<^verbatim>\<open>loading\<close>, assign
  \<^verbatim>\<open>data\<close> through the setter, call \<^verbatim>\<open>clear()\<close>. A setter call that raises leaves the
  chunk as it was, and the sequence goes on from there.
\<close>

datatype operation = SetLoading bool | SetData ArrayLike | Clear

fun apply_op :: "OctreeChunk \<Rightarrow> operation \<Rightarrow> OctreeChunk" where
  "apply_op c (SetLoading b) = c\<lparr>loading := b\<rparr>"
| "apply_op c (SetData d) = snd (data_setter c d)"
| "apply_op c Clear = clear c"

fun exec_ops :: "OctreeChunk \<Rightarrow> operation list \<Rightarrow> OctreeChunk" where
  "exec_ops c [] = c"
| "exec_ops c (x # xs) = exec_ops (apply_op c x) xs"


text \<open>
  A sequence in which the flag \<open>loading\<close> is set to true only on a chunk whose data is not
  in memory, which is where a load is queued.
\<close>

fun op_allowed :: "OctreeChunk \<Rightarrow> operation \<Rightarrow> bool" where
  "op_allowed c (SetLoading b) = (\<not> (b \<and> in_memory c))"
| "op_allowed c (SetData d) = True"
| "op_allowed c Clear = True"

fun admissible :: "OctreeChunk \<Rightarrow> operation list \<Rightarrow> bool" where
  "admissible c [] = True"
| "admissible c (x # xs) = (op_allowed c x \<and> admissible (apply_op c x) xs)"


section \<open>OctreeChunkKey\<close>

text \<open>
  A Python \<^verbatim>\<open>slice(start, stop, step)\<close>, each part an integer or \<^verbatim>\<open>None\<close>.
\<close>

datatype pyslice = Slice "int option" "int option" "int option"

text \<open>
  The elements of the tuple of values that a key is hashed from: the identity of the owning
  layer, the indices, and the location.
\<close>

datatype hash_value =
  HLayer nat
| HIndices "pyslice option list"
| HLocation OctreeLocation

text \<open>
  Modelled from the spec: the base class \<^verbatim>\<open>ChunkKey\<close> (module
  \<^verbatim>\<open>components.experimental.chunk\<close>) is not among the sources. The spec describes the
  key as made of the owner's identity and the tuple of indices, both supplied at construction
  and never changed afterwards.
\<close>

record ChunkKey =
  layer :: nat
  indices :: "pyslice option list"

text \<open>
  Modelled from the spec: \<^verbatim>\<open>ChunkKey._get_hash_values\<close>, missing with its class. It gives
  the values of the base key that the hash is computed from: the owner and the indices.
\<close>

definition ChunkKey_get_hash_values :: "'a ChunkKey_scheme \<Rightarrow> hash_value list" where
  "ChunkKey_get_hash_values k = [HLayer (layer k), HIndices (indices k)]"

text \<open>
  \<open>OctreeChunkKey\<close> adds the location to the base class. Its field is named
  \<open>key_location\<close> here, \<open>location\<close> being the field of the chunk.
\<close>

record OctreeChunkKey = ChunkKey +
  key_location :: OctreeLocation

definition OctreeChunkKey_init ::
  "nat \<Rightarrow> pyslice option list \<Rightarrow> OctreeLocation \<Rightarrow> OctreeChunkKey" where
  "OctreeChunkKey_init ly ix loc = \<lparr>layer = ly, indices = ix, key_location = loc\<rparr>"

text \<open>\<^verbatim>\<open>parent = super()._get_hash_values(); return parent + (self.location,)\<close>\<close>

definition get_hash_values :: "OctreeChunkKey \<Rightarrow> hash_value list" where
  "get_hash_values k = ChunkKey_get_hash_values k @ [HLocation (key_location k)]"

text \<open>
  Modelled from the spec: the hash and the equality of a key, which the missing base class
  defines. By the spec both are functions of the values of \<open>get_hash_values\<close> alone. The hash
  function of tuples is the parameter \<open>h\<close>.
\<close>

definition key_hash :: "(hash_value list \<Rightarrow> int) \<Rightarrow> OctreeChunkKey \<Rightarrow> int" where
  "key_hash h k = h (get_hash_values k)"

definition key_eq :: "OctreeChunkKey \<Rightarrow> OctreeChunkKey \<Rightarrow> bool" where
  "key_eq k1 k2 = (get_hash_values k1 = get_hash_values k2)"

text \<open>
  Modelled from the spec: the cache key of a chunk, built by the owner of the chunk (code that
  is not among the sources) from its own identity, the indices and the chunk's location.
\<close>

definition chunk_identity ::
  "nat \<Rightarrow> pyslice option list \<Rightarrow> OctreeChunk \<Rightarrow> OctreeChunkKey" where
  "chunk_identity ly ix c = OctreeChunkKey_init ly ix (location c)"


section \<open>Example values\<close>

text \<open>
  The location and a geometry of the scenario \<^verbatim>\<open>OctreeLocation(slice_id=1, level_index=2,
  row=0, col=3)\<close>, used where a property is evaluated on a concrete chunk.
\<close>

definition example_location :: OctreeLocation where
  "example_location =
     \<lparr>slice_id = PyInt 1, level_index = PyInt 2, row = PyInt 0, col = PyInt 3\<rparr>"

definition example_geom :: "real list \<Rightarrow> OctreeChunkGeom" where
  "example_geom p = \<lparr>pos = p, scale = replicate (length p) 1\<rparr>"

definition example_chunk :: "ArrayLike \<Rightarrow> OctreeChunk" where
  "example_chunk d = OctreeChunk_init d example_location (example_geom [0, 768])"


section \<open>Properties of the load state\<close>

text \<open>
  C1. \<open>needs_load\<close> is true exactly when \<open>in_memory\<close> is false and \<open>loading\<close> is false. In the
  four combinations of the data being an ndarray or not and the flag being set or not, it is
  true for deferred data with the flag unset and false in the other three.
\<close>

theorem needs_load_table:
  "needs_load c = (in_memory c = False \<and> loading c = False)
   \<and> needs_load (c\<lparr>data := Lazy r, loading := False\<rparr>)
   \<and> \<not> needs_load (c\<lparr>data := Lazy r, loading := True\<rparr>)
   \<and> \<not> needs_load (c\<lparr>data := Ndarray r, loading := False\<rparr>)
   \<and> \<not> needs_load (c\<lparr>data := Ndarray r, loading := True\<rparr>)"
  by (simp add: needs_load_def in_memory_def)

text \<open>
  C6. \<open>create_null\<close> passes six positional arguments to a constructor of four fields, so every
  call raises \<open>TypeError\<close>: no location is returned.
\<close>

theorem create_null_raises: "create_null = Inl TypeError"
  by (simp add: create_null_def)

text \<open>The call with the four zeros alone returns the location whose fields are all zero.\<close>

lemma OctreeLocation_new_zeros:
  "OctreeLocation_new [PyInt 0, PyInt 0, PyInt 0, PyInt 0] =
     Inr \<lparr>slice_id = PyInt 0, level_index = PyInt 0, row = PyInt 0, col = PyInt 0\<rparr>"
  by simp


section \<open>Helper facts\<close>

lemma data_setter_ndarray:
  "data_setter c (Ndarray m) = (None, c\<lparr>data := Ndarray m, loading := False\<rparr>)"
  by (simp add: data_setter_def)

lemma data_setter_lazy: "data_setter c (Lazy r) = (Some AssertionError, c)"
  by (simp add: data_setter_def)

lemma apply_op_frame:
  "location (apply_op c x) = location c"
  "geom (apply_op c x) = geom c"
  "orig_data (apply_op c x) = orig_data c"
  by (cases x; simp add: data_setter_def clear_def)+

lemma exec_ops_frame:
  "location (exec_ops c xs) = location c \<and> geom (exec_ops c xs) = geom c
   \<and> orig_data (exec_ops c xs) = orig_data c"
  by (induction xs arbitrary: c) (simp_all add: apply_op_frame)


section \<open>The data setter\<close>

text \<open>
  C10. The setter accepts an ndarray whatever the state of the chunk: the call raises nothing,
  the data is the array assigned, \<open>in_memory\<close> is true and \<open>loading\<close> is false afterwards. So
  it does for the chunk as constructed (not loading, deferred data), for a chunk that is
  loading, and for one that holds an ndarray already.
\<close>

theorem data_setter_accepts_ndarray:
  "fst (data_setter c (Ndarray m)) = None
   \<and> data (snd (data_setter c (Ndarray m))) = Ndarray m
   \<and> in_memory (snd (data_setter c (Ndarray m)))
   \<and> \<not> loading (snd (data_setter c (Ndarray m)))
   \<and> in_memory (snd (data_setter (OctreeChunk_init (Lazy r) loc g) (Ndarray m)))
   \<and> in_memory (snd (data_setter (c\<lparr>data := Lazy r, loading := True\<rparr>) (Ndarray m)))
   \<and> \<not> loading (snd (data_setter (c\<lparr>data := Lazy r, loading := True\<rparr>) (Ndarray m)))
   \<and> in_memory (snd (data_setter (c\<lparr>data := Ndarray r, loading := False\<rparr>) (Ndarray m)))"
  by (simp add: data_setter_def in_memory_def)

text \<open>
  C3, as stated, fails: the setter changes the data and the flag in two stores, and the state
  between them exists. On a chunk that is loading, the states of one call show \<open>in_memory\<close>
  and \<open>loading\<close> as (false, true) at entry, (true, true) after the first store and
  (true, false) at the end: the state in the middle is neither the one before the call nor
  the one after it.
\<close>

theorem data_setter_intermediate_counterexample:
  "map (\<lambda>s. (in_memory s, loading s))
     (data_setter_steps (example_chunk (Lazy 0)\<lparr>loading := True\<rparr>) (Ndarray 1)) =
     [(False, True), (True, True), (True, False)]"
  by (simp add: data_setter_steps_def in_memory_def example_chunk_def OctreeChunk_init_def)

text \<open>
  C3, amended. Assigning an ndarray through the setter ends in a state where \<open>in_memory\<close> is
  true and \<open>loading\<close> is false, the state that \<open>data_setter\<close> returns. The call makes the
  two changes as two successive stores: the one state between them holds the new data with
  the flag as it was before the call, so \<open>in_memory\<close> is true there and \<open>loading\<close> is
  unchanged, and that state is the final one exactly when the chunk was not loading.
\<close>

theorem data_setter_two_stores:
  "data_setter_steps c (Ndarray m) =
     [c, c\<lparr>data := Ndarray m\<rparr>, c\<lparr>data := Ndarray m, loading := False\<rparr>]
   \<and> last (data_setter_steps c (Ndarray m)) = snd (data_setter c (Ndarray m))
   \<and> last (data_setter_steps c d) = snd (data_setter c d)
   \<and> in_memory (last (data_setter_steps c (Ndarray m)))
   \<and> \<not> loading (last (data_setter_steps c (Ndarray m)))
   \<and> in_memory (data_setter_steps c (Ndarray m) ! 1)
   \<and> loading (data_setter_steps c (Ndarray m) ! 1) = loading c
   \<and> (data_setter_steps c (Ndarray m) ! 1 = last (data_setter_steps c (Ndarray m)))
       = (\<not> loading c)"
proof -
  have steps: "data_setter_steps c (Ndarray m) =
      [c, c\<lparr>data := Ndarray m\<rparr>, c\<lparr>data := Ndarray m, loading := False\<rparr>]"
    by (simp add: data_setter_steps_def)
  have refines: "last (data_setter_steps c d) = snd (data_setter c d)" for d
    by (simp add: data_setter_steps_def data_setter_def)
  have same: "(c\<lparr>data := Ndarray m\<rparr> = c\<lparr>data := Ndarray m, loading := False\<rparr>)
      = (\<not> loading c)"
  proof
    assume "c\<lparr>data := Ndarray m\<rparr> = c\<lparr>data := Ndarray m, loading := False\<rparr>"
    then have "loading (c\<lparr>data := Ndarray m\<rparr>)
        = loading (c\<lparr>data := Ndarray m, loading := False\<rparr>)"
      by (rule arg_cong)
    then show "\<not> loading c" by simp
  next
    assume "\<not> loading c"
    then show "c\<lparr>data := Ndarray m\<rparr> = c\<lparr>data := Ndarray m, loading := False\<rparr>"
      by simp
  qed
  show ?thesis
    unfolding steps using refines [of d] refines [of "Ndarray m"] same
    by (simp add: in_memory_def data_setter_def)
qed

text \<open>
  C4. For a value that is not an ndarray the setter raises \<open>AssertionError\<close>, and the chunk
  is the one it was: its data and its flag \<open>loading\<close>, like every other field, are unchanged.
\<close>

theorem data_setter_rejects:
  assumes "\<not> is_ndarray d"
  shows "fst (data_setter c d) = Some AssertionError
         \<and> snd (data_setter c d) = c
         \<and> data (snd (data_setter c d)) = data c
         \<and> loading (snd (data_setter c d)) = loading c"
  using assms by (simp add: data_setter_def)

theorem data_setter_rejects_witness:
  "\<not> is_ndarray (Lazy 7)
   \<and> data_setter (example_chunk (Lazy 3)\<lparr>loading := True\<rparr>) (Lazy 7) =
       (Some AssertionError, example_chunk (Lazy 3)\<lparr>loading := True\<rparr>)"
proof -
  have h: "\<not> is_ndarray (Lazy 7)" by simp
  show ?thesis
    using h data_setter_rejects [OF h, of "example_chunk (Lazy 3)\<lparr>loading := True\<rparr>"]
    by (simp add: prod_eq_iff)
qed

text \<open>
  C9. The setter and \<open>clear\<close> leave the location, the geometry and the retained original
  data of the chunk as they were; after any sequence of operations the geometry is the one
  given to the constructor.
\<close>

theorem setter_clear_frame:
  "location (snd (data_setter c d)) = location c
   \<and> geom (snd (data_setter c d)) = geom c
   \<and> orig_data (snd (data_setter c d)) = orig_data c
   \<and> location (clear c) = location c
   \<and> geom (clear c) = geom c
   \<and> orig_data (clear c) = orig_data c
   \<and> geom (OctreeChunk_init d0 loc g) = g
   \<and> geom (exec_ops (OctreeChunk_init d0 loc g) xs) = g
   \<and> location (exec_ops (OctreeChunk_init d0 loc g) xs) = loc
   \<and> orig_data (exec_ops (OctreeChunk_init d0 loc g) xs) = d0"
  by (simp add: data_setter_def clear_def exec_ops_frame OctreeChunk_init_def)


section \<open>The load-state invariant and clear\<close>

lemma apply_op_invariant:
  assumes "\<not> (in_memory c \<and> loading c)" and "op_allowed c x"
  shows "\<not> (in_memory (apply_op c x) \<and> loading (apply_op c x))"
  using assms by (cases x) (auto simp: data_setter_def clear_def in_memory_def)

lemma exec_ops_invariant:
  assumes "\<not> (in_memory c \<and> loading c)" and "admissible c xs"
  shows "\<not> (in_memory (exec_ops c xs) \<and> loading (exec_ops c xs))"
  using assms
proof (induction xs arbitrary: c)
  case Nil
  then show ?case by simp
next
  case (Cons x xs)
  from Cons.prems have "\<not> (in_memory (apply_op c x) \<and> loading (apply_op c x))"
    by (simp add: apply_op_invariant)
  moreover from Cons.prems have "admissible (apply_op c x) xs"
    by simp
  ultimately show ?case
    using Cons.IH by simp
qed

text \<open>
  C2, as stated, fails: \<open>loading\<close> is a plain attribute, and nothing stops a caller from
  setting it on a chunk whose data is in memory. After assigning an ndarray and then setting
  the flag, \<open>in_memory\<close> and \<open>loading\<close> are both true.
\<close>

theorem in_memory_and_loading_counterexample:
  "in_memory (exec_ops (example_chunk (Lazy 0)) [SetData (Ndarray 1), SetLoading True])
   \<and> loading (exec_ops (example_chunk (Lazy 0)) [SetData (Ndarray 1), SetLoading True])"
  by (simp add: example_chunk_def OctreeChunk_init_def data_setter_def in_memory_def)

text \<open>
  C2, amended. For a chunk reached from its construction by a sequence of operations in which
  \<open>loading\<close> is set to true only while the data is not in memory (the other operations being
  unrestricted: setting the flag to false, assigning data through the setter, \<open>clear\<close>),
  \<open>in_memory\<close> implies that \<open>loading\<close> is false.
\<close>

theorem in_memory_not_loading:
  assumes "admissible (OctreeChunk_init d loc g) xs"
  shows "in_memory (exec_ops (OctreeChunk_init d loc g) xs)
         \<longrightarrow> \<not> loading (exec_ops (OctreeChunk_init d loc g) xs)"
proof -
  have "\<not> (in_memory (OctreeChunk_init d loc g) \<and> loading (OctreeChunk_init d loc g))"
    by (simp add: OctreeChunk_init_def)
  from exec_ops_invariant [OF this assms] show ?thesis
    by simp
qed

theorem in_memory_not_loading_witness:
  "admissible (OctreeChunk_init (Lazy 0) example_location (example_geom [0, 768]))
     [SetLoading True, SetData (Ndarray 1), Clear, SetLoading True, SetData (Ndarray 2)]
   \<and> in_memory (exec_ops (OctreeChunk_init (Lazy 0) example_location (example_geom [0, 768]))
       [SetLoading True, SetData (Ndarray 1), Clear, SetLoading True, SetData (Ndarray 2)])
   \<and> \<not> loading (exec_ops (OctreeChunk_init (Lazy 0) example_location (example_geom [0, 768]))
       [SetLoading True, SetData (Ndarray 1), Clear, SetLoading True, SetData (Ndarray 2)])"
proof -
  have h: "admissible (OctreeChunk_init (Lazy 0) example_location (example_geom [0, 768]))
     [SetLoading True, SetData (Ndarray 1), Clear, SetLoading True, SetData (Ndarray 2)]"
    by (simp add: OctreeChunk_init_def data_setter_def clear_def in_memory_def)
  have m: "in_memory (exec_ops (OctreeChunk_init (Lazy 0) example_location (example_geom [0, 768]))
       [SetLoading True, SetData (Ndarray 1), Clear, SetLoading True, SetData (Ndarray 2)])"
    by (simp add: OctreeChunk_init_def data_setter_def clear_def in_memory_def)
  show ?thesis
    using h m in_memory_not_loading [OF h] by blast
qed

text \<open>
  C5. For a chunk constructed with a deferred reference, after any sequence of operations
  (settings of the flag, assignments through the setter whether accepted or rejected, earlier
  calls of \<open>clear\<close>), \<open>clear\<close> makes the data the very reference given to the constructor,
  with \<open>in_memory\<close> false and \<open>loading\<close> false.
\<close>

theorem clear_restores_original:
  "data (clear (exec_ops (OctreeChunk_init (Lazy r) loc g) xs)) = Lazy r
   \<and> \<not> in_memory (clear (exec_ops (OctreeChunk_init (Lazy r) loc g) xs))
   \<and> \<not> loading (clear (exec_ops (OctreeChunk_init (Lazy r) loc g) xs))"
proof -
  have "orig_data (exec_ops (OctreeChunk_init (Lazy r) loc g) xs) = Lazy r"
    by (simp add: exec_ops_frame OctreeChunk_init_def)
  then show ?thesis
    by (simp add: clear_def in_memory_def)
qed


section \<open>Keys\<close>

text \<open>
  C7. Two keys built from equal owners, equal indices and the locations of two chunks with
  equal locations are equal and have the same hash, whatever the data and the flag
  \<open>loading\<close> of the two chunks. The values hashed are the three components, and the key of a
  chunk does not change when its data or its flag does, nor under any sequence of operations.
\<close>

theorem chunk_identity_pure:
  assumes "ly1 = ly2" and "ix1 = ix2" and "location c1 = location c2"
  shows "key_eq (chunk_identity ly1 ix1 c1) (chunk_identity ly2 ix2 c2)
         \<and> key_hash h (chunk_identity ly1 ix1 c1) = key_hash h (chunk_identity ly2 ix2 c2)
         \<and> get_hash_values (OctreeChunkKey_init ly1 ix1 (location c1)) =
             [HLayer ly1, HIndices ix1, HLocation (location c1)]
         \<and> chunk_identity ly1 ix1 (c1\<lparr>data := d, loading := b\<rparr>) = chunk_identity ly1 ix1 c1
         \<and> chunk_identity ly1 ix1 (exec_ops c1 xs) = chunk_identity ly1 ix1 c1"
  using assms
  by (simp add: key_eq_def key_hash_def chunk_identity_def get_hash_values_def
      ChunkKey_get_hash_values_def OctreeChunkKey_init_def exec_ops_frame)

theorem chunk_identity_pure_witness:
  "location (example_chunk (Lazy 0)) =
     location (OctreeChunk_init (Ndarray 5) example_location (example_geom [256, 0])
                 \<lparr>loading := True\<rparr>)
   \<and> key_eq (chunk_identity 4 [None, Some (Slice (Some 0) (Some 8) None)] (example_chunk (Lazy 0)))
       (chunk_identity 4 [None, Some (Slice (Some 0) (Some 8) None)]
          (OctreeChunk_init (Ndarray 5) example_location (example_geom [256, 0])
             \<lparr>loading := True\<rparr>))
   \<and> key_hash (\<lambda>vs. int (length vs))
       (chunk_identity 4 [None, Some (Slice (Some 0) (Some 8) None)] (example_chunk (Lazy 0))) =
     key_hash (\<lambda>vs. int (length vs))
       (chunk_identity 4 [None, Some (Slice (Some 0) (Some 8) None)]
          (OctreeChunk_init (Ndarray 5) example_location (example_geom [256, 0])
             \<lparr>loading := True\<rparr>))"
proof -
  have l: "location (example_chunk (Lazy 0)) =
     location (OctreeChunk_init (Ndarray 5) example_location (example_geom [256, 0])
                 \<lparr>loading := True\<rparr>)"
    by (simp add: example_chunk_def OctreeChunk_init_def)
  show ?thesis
    using l chunk_identity_pure [OF refl refl l, of 4
        "[None, Some (Slice (Some 0) (Some 8) None)]" "\<lambda>vs. int (length vs)"]
    by blast
qed

text \<open>
  C8, as stated, fails: the key reads the first two components of the position only. Two
  chunks at the same level whose positions have three components and differ in the third
  have equal keys and different positions.
\<close>

theorem key_equal_pos_differs_counterexample:
  "key (OctreeChunk_init (Lazy 0) example_location (example_geom [0, 0, 1])) =
     key (OctreeChunk_init (Lazy 0) example_location (example_geom [0, 0, 2]))
   \<and> key (OctreeChunk_init (Lazy 0) example_location (example_geom [0, 0, 1])) =
       Inr (0, 0, PyInt 2)
   \<and> pos (geom (OctreeChunk_init (Lazy 0) example_location (example_geom [0, 0, 1]))) \<noteq>
       pos (geom (OctreeChunk_init (Lazy 0) example_location (example_geom [0, 0, 2])))"
  by (simp add: key_def OctreeChunk_init_def example_geom_def example_location_def)

text \<open>
  C8, amended. If the keys of two chunks are computed and equal, then the levels of their
  locations are equal and their positions agree on the first two components; the positions
  are equal as vectors when both have exactly two components.
\<close>

theorem key_equal_consistent:
  assumes "key c1 = Inr k" and "key c2 = Inr k"
  shows "level_index (location c1) = level_index (location c2)
         \<and> take 2 (pos (geom c1)) = take 2 (pos (geom c2))
         \<and> (length (pos (geom c1)) = 2 \<and> length (pos (geom c2)) = 2
              \<longrightarrow> pos (geom c1) = pos (geom c2))"
proof -
  from assms(1) obtain x1 y1 r1 where
    p1: "pos (geom c1) = x1 # y1 # r1" and k1: "k = (x1, y1, level_index (location c1))"
    by (auto simp: key_def split: list.splits)
  from assms(2) obtain x2 y2 r2 where
    p2: "pos (geom c2) = x2 # y2 # r2" and k2: "k = (x2, y2, level_index (location c2))"
    by (auto simp: key_def split: list.splits)
  from k1 k2 have "x1 = x2" "y1 = y2" "level_index (location c1) = level_index (location c2)"
    by simp_all
  with p1 p2 show ?thesis
    by (simp add: numeral_2_eq_2)
qed

theorem key_equal_consistent_witness:
  "key (example_chunk (Lazy 0)) = Inr (0, 768, PyInt 2)
   \<and> key (example_chunk (Ndarray 9)\<lparr>loading := True\<rparr>) = Inr (0, 768, PyInt 2)
   \<and> level_index (location (example_chunk (Lazy 0))) =
       level_index (location (example_chunk (Ndarray 9)\<lparr>loading := True\<rparr>))
   \<and> pos (geom (example_chunk (Lazy 0))) =
       pos (geom (example_chunk (Ndarray 9)\<lparr>loading := True\<rparr>))"
proof -
  have a: "key (example_chunk (Lazy 0)) = Inr (0, 768, PyInt 2)"
    by (simp add: key_def example_chunk_def OctreeChunk_init_def example_geom_def
        example_location_def)
  have b: "key (example_chunk (Ndarray 9)\<lparr>loading := True\<rparr>) = Inr (0, 768, PyInt 2)"
    by (simp add: key_def example_chunk_def OctreeChunk_init_def example_geom_def
        example_location_def)
  have n: "length (pos (geom (example_chunk (Lazy 0)))) = 2
           \<and> length (pos (geom (example_chunk (Ndarray 9)\<lparr>loading := True\<rparr>))) = 2"
    by (simp add: example_chunk_def OctreeChunk_init_def example_geom_def)
  show ?thesis
    using a b n key_equal_consistent [OF a b] by blast
qed

end
